theory Spec2Isabelle
  imports Main "HOL-Library.Sublist" "HOL-Library.Word"
begin

section \<open>The Figma API client (src/services/figma.ts)\<close>

text \<open>
  A shallow embedding of the class \<open>FigmaService\<close> and of the module function
  \<open>writeLogs\<close>. Every method is a function from the state before the call to the
  outcome of the call (a thrown value or a returned value) and the state after it. The
  state holds the client object, the outbound HTTP requests issued so far, the console,
  the environment variable \<open>NODE_ENV\<close> and the file system. What the remote side answers
  to a request is an argument of each method (the promise \<open>axios.get\<close> settles with);
  \<open>await\<close> is sequential composition.

  JavaScript strings are modelled as \<open>string\<close>; the code only concatenates them, compares
  them and searches them for a literal, so the width of a code unit plays no role.
\<close>

subsection \<open>Values\<close>

text \<open>
  A \<open>number\<close> is \<open>NaN\<close>, an infinity, or a finite value \<open>m * 2 ^ e\<close>, written
  \<open>Finite m e\<close> (every finite double is of this form; the two zeros, which are both falsy
  and both print as \<open>0\<close>, are one value).
\<close>

datatype number = NaN | PosInfinity | NegInfinity | Finite int int

text \<open>
  A parsed JSON value, as \<open>axios\<close> hands over the body of a response. The fields of an
  object are kept in the order of the text; of two fields with one name the later counts.
\<close>

datatype json =
    JNull
  | JBool bool
  | JNum number
  | JStr string
  | JArr "json list"
  | JObj "(string \<times> json) list"

text \<open>
  What a \<open>throw\<close> can carry here:
  \<^item> \<open>FigmaError status err\<close>: the object literal \<open>{ status, err }\<close> thrown by \<open>request\<close>;
  \<^item> \<open>Error message\<close>: \<open>new Error(message)\<close>;
  \<^item> \<open>TypeError\<close>: the error of a property read on \<open>null\<close> or \<open>undefined\<close>;
  \<^item> \<open>AxiosError response\<close>: an instance of \<open>AxiosError\<close>; \<open>response\<close> is \<open>None\<close> when
    \<open>error.response\<close> is undefined, and \<open>Some (status, data)\<close> otherwise, with
    \<open>error.response.status\<close> and \<open>error.response.data\<close>, the body, which is any JSON
    value or \<open>undefined\<close> (\<open>None\<close>);
  \<^item> \<open>Thrown tag\<close>: any other thrown value (a file system error, an exception of a
    transformer), which the code never inspects.
\<close>

datatype thrown =
    FigmaError nat json
  | Error string
  | TypeError
  | AxiosError "(nat \<times> json option) option"
  | Thrown string

type_synonym byte = "8 word"

record http_request =
  url :: string
  headers :: "(string \<times> string) list"
  responseType :: "string option"

text \<open>
  The promise returned by \<open>axios.get\<close>: fulfilled with a response whose \<open>data\<close> field is
  the argument of \<open>Resolved\<close>, or rejected with a thrown value.
\<close>

datatype 'd axios_outcome = Resolved 'd | Rejected thrown

datatype console_entry = Console string string "thrown option"

datatype fs_call =
    Cwd
  | AccessSync string
  | ExistsSync string
  | MkdirSync string
  | WriteFileSync string string

text \<open>
  The file system as \<open>writeLogs\<close> sees it: every call may fail with a thrown value of
  the environment's choice (\<open>None\<close>: the call succeeds).
\<close>

record filesystem =
  cwd :: "thrown + string"
  access_failure :: "string \<Rightarrow> thrown option"
  exists :: "string \<Rightarrow> bool"
  mkdir_failure :: "string \<Rightarrow> thrown option"
  write_failure :: "string \<Rightarrow> thrown option"
  contents :: "string \<rightharpoonup> string"

record FigmaService =
  apiKey :: string
  baseUrl :: string

record state =
  service :: FigmaService
  requests :: "http_request list"
  console :: "console_entry list"
  node_env :: "string option"
  fs :: filesystem
  fs_calls :: "fs_call list"

text \<open>
  \<open>GetImagesResponse\<close>: the error field (\<open>None\<close>: null or missing) and the field
  \<open>images\<close>, an object whose own properties map node ids to a URL or to null
  (\<open>None\<close>: the field is missing or null). The body of an image response is a value of this
  type, or \<open>None\<close> when it is \<open>null\<close> or \<open>undefined\<close>; a body that is not an object has
  neither field.
\<close>

record GetImagesResponse =
  err :: "string option"
  images :: "(string \<rightharpoonup> string option) option"

text \<open>
  The value of a property read \<open>object[key]\<close> on such an object: undefined, null, a string of
  its own, or the member of \<open>Object.prototype\<close> that every object inherits under that name.
\<close>

datatype property = Undefined | Null | OwnString string | Inherited string

subsection \<open>Statements that may throw\<close>

type_synonym 'a io = "state \<Rightarrow> (thrown + 'a) \<times> state"

definition io_return :: "'a \<Rightarrow> 'a io" where
  "io_return x = (\<lambda>s. (Inr x, s))"

definition io_throw :: "thrown \<Rightarrow> 'a io" where
  "io_throw e = (\<lambda>s. (Inl e, s))"

definition io_bind :: "'a io \<Rightarrow> ('a \<Rightarrow> 'b io) \<Rightarrow> 'b io" where
  "io_bind m k = (\<lambda>s. case m s of (Inl e, s') \<Rightarrow> (Inl e, s') | (Inr x, s') \<Rightarrow> k x s')"

definition io_of :: "thrown + 'a \<Rightarrow> 'a io" where
  "io_of r = (\<lambda>s. (r, s))"

definition try_catch :: "'a io \<Rightarrow> (thrown \<Rightarrow> 'a io) \<Rightarrow> 'a io" where
  "try_catch m h = (\<lambda>s. case m s of (Inl e, s') \<Rightarrow> h e s' | (Inr x, s') \<Rightarrow> (Inr x, s'))"

definition console_write :: "string \<Rightarrow> string \<Rightarrow> thrown option \<Rightarrow> unit io" where
  "console_write method msg extra =
     (\<lambda>s. (Inr (), s\<lparr>console := console s @ [Console method msg extra]\<rparr>))"

definition axios_get :: "(http_request \<Rightarrow> 'd axios_outcome) \<Rightarrow> http_request \<Rightarrow> 'd io" where
  "axios_get remote req =
     (\<lambda>s. (case remote req of Resolved d \<Rightarrow> Inr d | Rejected e \<Rightarrow> Inl e,
           s\<lparr>requests := requests s @ [req]\<rparr>))"

definition this :: "FigmaService io" where
  "this = (\<lambda>s. (Inr (service s), s))"

subsection \<open>The client\<close>

definition constructor :: "string \<Rightarrow> FigmaService" where
  "constructor key = \<lparr>apiKey = key, baseUrl = ''https://api.figma.com/v1''\<rparr>"

text \<open>Truthiness: of numbers, \<open>NaN\<close> and zero are falsy; of JSON values, \<open>null\<close>,
  \<open>false\<close>, the falsy numbers and the empty string are.\<close>

definition ToBoolean_number :: "number \<Rightarrow> bool" where
  "ToBoolean_number x = (case x of NaN \<Rightarrow> False | Finite m e \<Rightarrow> m \<noteq> 0 | _ \<Rightarrow> True)"

fun ToBoolean :: "json \<Rightarrow> bool" where
  "ToBoolean JNull = False"
| "ToBoolean (JBool b) = b"
| "ToBoolean (JNum x) = ToBoolean_number x"
| "ToBoolean (JStr s) = (s \<noteq> [])"
| "ToBoolean (JArr xs) = True"
| "ToBoolean (JObj members) = True"

text \<open>
  The read \<open>data.err\<close> on a body: a \<open>TypeError\<close> on \<open>null\<close> and \<open>undefined\<close>; the own
  property of an object (\<open>None\<close>: undefined); undefined on every other value, since no
  prototype has a property of that name.
\<close>

definition get_err :: "json option \<Rightarrow> thrown + json option" where
  "get_err data =
     (case data of
        None \<Rightarrow> Inl TypeError
      | Some JNull \<Rightarrow> Inl TypeError
      | Some (JObj members) \<Rightarrow> Inr (map_of (rev members) ''err'')
      | Some _ \<Rightarrow> Inr None)"

text \<open>\<open>x || "Unknown error"\<close>: the value itself when it is truthy.\<close>

definition or_unknown_error :: "json option \<Rightarrow> json" where
  "or_unknown_error x =
     (case x of
        None \<Rightarrow> JStr ''Unknown error''
      | Some v \<Rightarrow> if ToBoolean v then v else JStr ''Unknown error'')"

definition request :: "(http_request \<Rightarrow> 'T axios_outcome) \<Rightarrow> string \<Rightarrow> 'T io" where
  "request remote endpoint =
     try_catch
       (io_bind this (\<lambda>self.
        io_bind (console_write ''log'' (''Calling '' @ baseUrl self @ endpoint) None) (\<lambda>_.
        io_bind (axios_get remote
                   \<lparr>url = baseUrl self @ endpoint,
                    headers = [(''X-Figma-Token'', apiKey self)],
                    responseType = None\<rparr>) (\<lambda>response.
        io_return response))))
       (\<lambda>error.
          case error of
            AxiosError (Some (status, data)) \<Rightarrow>
              io_bind (io_of (get_err data)) (\<lambda>e.
              io_throw (FigmaError status (or_unknown_error e)))
          | _ \<Rightarrow> io_throw (Error ''Failed to make request to Figma API''))"


subsection \<open>Strings and numbers of the language\<close>

text \<open>
  \<open>s.replace(pattern, replacement)\<close> with a string pattern: the first occurrence of the
  pattern, searched from the left, is replaced; a string without the pattern is returned as
  it is. (The \<open>$\<close> patterns of a replacement are not modelled: the source's replacement
  \<open>":"\<close> has none.)
\<close>

fun replace :: "string \<Rightarrow> string \<Rightarrow> string \<Rightarrow> string" where
  "replace [] pat rep = (if pat = [] then rep else [])"
| "replace (c # cs) pat rep =
     (if prefix pat (c # cs) then rep @ drop (length pat) (c # cs)
      else c # replace cs pat rep)"

text \<open>
  \<open>Number::toString\<close>, as a template literal applies it. A safe integer (below \<open>2^53\<close> in
  absolute value) prints as its decimal numeral. Every other finite number prints as the
  shortest digits that read back as the same double, in positional or exponent form; that
  digit generation is not modelled and is the argument \<open>shortest\<close>.
\<close>

fun digits :: "nat \<Rightarrow> string" where
  "digits n =
     (if n < 10 then [''0123456789'' ! n]
      else digits (n div 10) @ [''0123456789'' ! (n mod 10)])"

declare digits.simps [simp del]

definition integer_value :: "int \<Rightarrow> int \<Rightarrow> int option" where
  "integer_value m e =
     (if 0 \<le> e then Some (m * 2 ^ nat e)
      else if 2 ^ nat (- e) dvd m then Some (m div 2 ^ nat (- e))
      else None)"

definition Number_toString :: "(int \<Rightarrow> int \<Rightarrow> string) \<Rightarrow> number \<Rightarrow> string" where
  "Number_toString shortest x =
     (case x of
        NaN \<Rightarrow> ''NaN''
      | PosInfinity \<Rightarrow> ''Infinity''
      | NegInfinity \<Rightarrow> ''-Infinity''
      | Finite m e \<Rightarrow>
          (case integer_value m e of
             None \<Rightarrow> shortest m e
           | Some n \<Rightarrow>
               if \<bar>n\<bar> < 2 ^ 53 then
                 (if n < 0 then CHR ''-'' # digits (nat (- n)) else digits (nat n))
               else shortest m e))"

text \<open>The value of an optional string when it is truthy (neither undefined, null nor empty).\<close>

definition truthy :: "string option \<Rightarrow> string option" where
  "truthy x = (case x of None \<Rightarrow> None | Some m \<Rightarrow> if m = [] then None else Some m)"

subsection \<open>Base64\<close>

text \<open>
  \<open>Buffer.toString("base64")\<close>: the standard alphabet, three bytes to four characters,
  the last group padded with \<open>=\<close>.
\<close>

definition b64_alphabet :: string where
  "b64_alphabet = ''ABCDEFGHIJKLMNOPQRSTUVWXYZabcdefghijklmnopqrstuvwxyz0123456789+/''"

definition b64_char :: "nat \<Rightarrow> char" where
  "b64_char i = b64_alphabet ! i"

fun toString_base64 :: "byte list \<Rightarrow> string" where
  "toString_base64 [] = []"
| "toString_base64 [a] =
     [b64_char (unat a div 4), b64_char (unat a mod 4 * 16), CHR ''='', CHR ''='']"
| "toString_base64 [a, b] =
     [b64_char (unat a div 4), b64_char (unat a mod 4 * 16 + unat b div 16),
      b64_char (unat b mod 16 * 4), CHR ''='']"
| "toString_base64 (a # b # c # rest) =
     [b64_char (unat a div 4), b64_char (unat a mod 4 * 16 + unat b div 16),
      b64_char (unat b mod 16 * 4 + unat c div 64), b64_char (unat c mod 64)]
     @ toString_base64 rest"

text \<open>
  \<open>Buffer.from(data, "binary")\<close> on the buffer of an \<open>arraybuffer\<close> response copies its
  bytes; the encoding argument only applies to strings.
\<close>

definition Buffer_from :: "byte list \<Rightarrow> byte list" where
  "Buffer_from bytes = bytes"

text \<open>
  The decoder the round trip is measured against (RFC 4648, strict): the position of each
  character in the alphabet, four characters to three bytes, padding only in the last group.
\<close>

fun index_of :: "'a list \<Rightarrow> 'a \<Rightarrow> nat option" where
  "index_of [] c = None"
| "index_of (x # xs) c = (if x = c then Some 0 else map_option Suc (index_of xs c))"

definition b64_index :: "char \<Rightarrow> nat option" where
  "b64_index c = index_of b64_alphabet c"

fun base64_decode :: "string \<Rightarrow> byte list option" where
  "base64_decode [] = Some []"
| "base64_decode (c1 # c2 # c3 # c4 # rest) =
     (case (b64_index c1, b64_index c2) of
        (Some i1, Some i2) \<Rightarrow>
          if c3 = CHR ''='' \<and> c4 = CHR ''='' \<and> rest = [] then
            Some [of_nat (i1 * 4 + i2 div 16)]
          else
            (case b64_index c3 of
               None \<Rightarrow> None
             | Some i3 \<Rightarrow>
                 if c4 = CHR ''='' \<and> rest = [] then
                   Some [of_nat (i1 * 4 + i2 div 16), of_nat (i2 mod 16 * 16 + i3 div 4)]
                 else
                   (case b64_index c4 of
                      None \<Rightarrow> None
                    | Some i4 \<Rightarrow>
                        map_option
                          (\<lambda>bytes. of_nat (i1 * 4 + i2 div 16)
                                    # of_nat (i2 mod 16 * 16 + i3 div 4)
                                    # of_nat (i3 mod 4 * 64 + i4) # bytes)
                          (base64_decode rest)))
      | _ \<Rightarrow> None)"
| "base64_decode _ = None"

subsection \<open>The debug log\<close>

definition process_env_NODE_ENV :: "string option io" where
  "process_env_NODE_ENV = (\<lambda>s. (Inr (node_env s), s))"

definition process_cwd :: "string io" where
  "process_cwd = (\<lambda>s. (cwd (fs s), s\<lparr>fs_calls := fs_calls s @ [Cwd]\<rparr>))"

definition accessSync :: "string \<Rightarrow> unit io" where
  "accessSync p =
     (\<lambda>s. (case access_failure (fs s) p of Some e \<Rightarrow> Inl e | None \<Rightarrow> Inr (),
           s\<lparr>fs_calls := fs_calls s @ [AccessSync p]\<rparr>))"

definition existsSync :: "string \<Rightarrow> bool io" where
  "existsSync p = (\<lambda>s. (Inr (exists (fs s) p), s\<lparr>fs_calls := fs_calls s @ [ExistsSync p]\<rparr>))"

definition mkdirSync :: "string \<Rightarrow> unit io" where
  "mkdirSync p =
     (\<lambda>s. case mkdir_failure (fs s) p of
            Some e \<Rightarrow> (Inl e, s\<lparr>fs_calls := fs_calls s @ [MkdirSync p]\<rparr>)
          | None \<Rightarrow>
              (Inr (), s\<lparr>fs := (fs s)\<lparr>exists := (exists (fs s))(p := True)\<rparr>,
                         fs_calls := fs_calls s @ [MkdirSync p]\<rparr>))"

definition writeFileSync :: "string \<Rightarrow> string \<Rightarrow> unit io" where
  "writeFileSync p text =
     (\<lambda>s. case write_failure (fs s) p of
            Some e \<Rightarrow> (Inl e, s\<lparr>fs_calls := fs_calls s @ [WriteFileSync p text]\<rparr>)
          | None \<Rightarrow>
              (Inr (), s\<lparr>fs := (fs s)\<lparr>exists := (exists (fs s))(p := True),
                                      contents := (contents (fs s))(p \<mapsto> text)\<rparr>,
                         fs_calls := fs_calls s @ [WriteFileSync p text]\<rparr>))"

text \<open>
  \<open>writeLogs(name, value)\<close>. The first argument is \<open>JSON.stringify(_, null, 2)\<close>, which
  may throw. The \<open>return\<close> inside the inner \<open>catch\<close> is the value \<open>False\<close> of the inner
  \<open>try\<close> statement.
\<close>

definition writeLogs :: "('v \<Rightarrow> thrown + string) \<Rightarrow> string \<Rightarrow> 'v \<Rightarrow> unit io" where
  "writeLogs JSON_stringify name v =
     try_catch
       (io_bind process_env_NODE_ENV (\<lambda>env.
        if env \<noteq> Some ''development'' then io_return ()
        else
          let logsDir = ''logs'' in
          io_bind
            (try_catch
               (io_bind process_cwd (\<lambda>dir.
                io_bind (accessSync dir) (\<lambda>_.
                io_return True)))
               (\<lambda>error.
                  io_bind (console_write ''log'' ''Failed to write logs:'' (Some error)) (\<lambda>_.
                  io_return False)))
            (\<lambda>writable.
               if \<not> writable then io_return ()
               else
                 io_bind (existsSync logsDir) (\<lambda>present.
                 io_bind (if \<not> present then mkdirSync logsDir else io_return ()) (\<lambda>_.
                 io_bind (io_of (JSON_stringify v)) (\<lambda>text.
                 writeFileSync (logsDir @ ''/'' @ name) text))))))
       (\<lambda>error. console_write ''debug'' ''Failed to write logs:'' (Some error))"

subsection \<open>The four operations\<close>

text \<open>
  What the module takes from outside: the two transformers of
  \<open>./simplify-node-response\<close>, which may throw, \<open>JSON.stringify\<close>, and the digit
  generation of \<open>Number::toString\<close>. Raw payloads and simplified designs are values of
  one type \<open>'v\<close> (\<open>writeLogs\<close> takes \<open>any\<close>).
\<close>

record 'v module_imports =
  parseFigmaFileResponse :: "'v \<Rightarrow> thrown + 'v"
  parseFigmaResponse :: "'v \<Rightarrow> thrown + 'v"
  JSON_stringify :: "'v \<Rightarrow> thrown + string"
  shortest_digits :: "int \<Rightarrow> int \<Rightarrow> string"

definition getFile ::
  "'v module_imports \<Rightarrow> (http_request \<Rightarrow> 'v axios_outcome) \<Rightarrow> string \<Rightarrow> number option
     \<Rightarrow> 'v io" where
  "getFile ext remote fileKey depth =
     try_catch
       (let endpoint =
              ''/files/'' @ fileKey @
              (case depth of
                 None \<Rightarrow> []
               | Some d \<Rightarrow>
                   if ToBoolean_number d
                   then ''?depth='' @ Number_toString (shortest_digits ext) d else [])
        in
        io_bind this (\<lambda>self.
        io_bind (console_write ''log'' (''Calling '' @ baseUrl self @ endpoint) None) (\<lambda>_.
        io_bind (request remote endpoint) (\<lambda>response.
        io_bind (console_write ''log'' ''Got response'' None) (\<lambda>_.
        io_bind (io_of (parseFigmaFileResponse ext response)) (\<lambda>simplifiedResponse.
        io_bind (writeLogs (JSON_stringify ext) ''figma-raw.json'' response) (\<lambda>_.
        io_bind (writeLogs (JSON_stringify ext) ''figma-simplified.json'' simplifiedResponse) (\<lambda>_.
        io_return simplifiedResponse))))))))
       (\<lambda>e.
          io_bind (console_write ''log'' ''hi?'' None) (\<lambda>_.
          io_bind (console_write ''error'' ''Failed to get file:'' (Some e)) (\<lambda>_.
          io_throw e)))"

definition getNode ::
  "'v module_imports \<Rightarrow> (http_request \<Rightarrow> 'v axios_outcome) \<Rightarrow> string \<Rightarrow> string
     \<Rightarrow> number option \<Rightarrow> 'v io" where
  "getNode ext remote fileKey nodeId depth =
     (let endpoint =
            ''/files/'' @ fileKey @ ''/nodes?ids='' @ nodeId @
            (case depth of
               None \<Rightarrow> []
             | Some d \<Rightarrow>
                 if ToBoolean_number d
                 then ''&depth='' @ Number_toString (shortest_digits ext) d else [])
      in
      io_bind (request remote endpoint) (\<lambda>response.
      io_bind (writeLogs (JSON_stringify ext) ''figma-raw.json'' response) (\<lambda>_.
      io_bind (io_of (parseFigmaResponse ext response)) (\<lambda>simplifiedResponse.
      io_bind (writeLogs (JSON_stringify ext) ''figma-simplified.json'' simplifiedResponse) (\<lambda>_.
      io_return simplifiedResponse)))))"

text \<open>
  The names under which every object inherits a member of \<open>Object.prototype\<close>, and the
  read \<open>object[key]\<close>: an own property comes first, then the inherited member.
\<close>

definition Object_prototype :: "string list" where
  "Object_prototype =
     [''constructor'', ''__defineGetter__'', ''__defineSetter__'', ''hasOwnProperty'',
      ''__lookupGetter__'', ''__lookupSetter__'', ''isPrototypeOf'', ''propertyIsEnumerable'',
      ''toString'', ''valueOf'', ''__proto__'', ''toLocaleString'']"

definition get_property :: "(string \<rightharpoonup> string option) \<Rightarrow> string \<Rightarrow> property" where
  "get_property object key =
     (case object key of
        Some (Some v) \<Rightarrow> OwnString v
      | Some None \<Rightarrow> Null
      | None \<Rightarrow> if key \<in> set Object_prototype then Inherited key else Undefined)"

definition ToBoolean_property :: "property \<Rightarrow> bool" where
  "ToBoolean_property v =
     (case v of Undefined \<Rightarrow> False | Null \<Rightarrow> False | OwnString u \<Rightarrow> u \<noteq> [] | Inherited k \<Rightarrow> True)"

text \<open>
  \<open>getNodeImage\<close>. The reads \<open>response.err\<close> on a null body and
  \<open>response.images[formattedNodeId]\<close> on a body without \<open>images\<close> throw a \<open>TypeError\<close>
  inside the \<open>try\<close>. The value returned is the value read, whatever it is.
\<close>

definition getNodeImage ::
  "(http_request \<Rightarrow> GetImagesResponse option axios_outcome) \<Rightarrow> string \<Rightarrow> string
     \<Rightarrow> property io" where
  "getNodeImage remote fileKey nodeId =
     try_catch
       (let formattedNodeId = replace nodeId ''-'' '':'';
            endpoint = ''/images/'' @ fileKey @ ''?ids='' @ formattedNodeId @ ''&scale=1&format=png''
        in
        io_bind (request remote endpoint) (\<lambda>response.
        case response of
          None \<Rightarrow> io_throw TypeError
        | Some body \<Rightarrow>
            (case truthy (err body) of
               Some message \<Rightarrow> io_throw (Error message)
             | None \<Rightarrow>
                 (case images body of
                    None \<Rightarrow> io_throw TypeError
                  | Some object \<Rightarrow>
                      (let imageUrl = get_property object formattedNodeId in
                       if \<not> ToBoolean_property imageUrl
                       then io_throw (Error (''No image URL found for node '' @ formattedNodeId))
                       else io_return imageUrl)))))
       (\<lambda>error.
          io_bind (console_write ''error''
                     (''Failed to get image for node '' @ nodeId @ '' from file '' @ fileKey @ '':'')
                     (Some error)) (\<lambda>_.
          io_throw error))"

definition fetchImageData ::
  "(http_request \<Rightarrow> byte list axios_outcome) \<Rightarrow> string \<Rightarrow> string io" where
  "fetchImageData remote imageUrl =
     try_catch
       (io_bind (axios_get remote
                   \<lparr>url = imageUrl, headers = [], responseType = Some ''arraybuffer''\<rparr>)
          (\<lambda>response.
             let base64 = toString_base64 (Buffer_from response) in
             io_return base64))
       (\<lambda>error.
          io_bind (console_write ''error'' ''Failed to fetch image data:'' (Some error)) (\<lambda>_.
          io_throw error))"

subsection \<open>Concrete environments\<close>

text \<open>
  A remote side that settles every request the same way, two file systems (one where
  every call succeeds, one where every call fails), the state right after
  \<open>new FigmaService(key)\<close>, and transformers over payloads that are plain strings (with
  a digit generation that is only ever asked for one half).
\<close>

definition always :: "'d axios_outcome \<Rightarrow> http_request \<Rightarrow> 'd axios_outcome" where
  "always outcome req = outcome"

definition writable_fs :: filesystem where
  "writable_fs =
     \<lparr>cwd = Inr ''/app'', access_failure = (\<lambda>_. None), exists = (\<lambda>_. False),
      mkdir_failure = (\<lambda>_. None), write_failure = (\<lambda>_. None), contents = Map.empty\<rparr>"

definition broken_fs :: "thrown \<Rightarrow> filesystem" where
  "broken_fs e =
     \<lparr>cwd = Inr ''/app'', access_failure = (\<lambda>_. Some e), exists = (\<lambda>_. False),
      mkdir_failure = (\<lambda>_. Some e), write_failure = (\<lambda>_. Some e), contents = Map.empty\<rparr>"

definition initial_state :: "string \<Rightarrow> string option \<Rightarrow> filesystem \<Rightarrow> state" where
  "initial_state key env files =
     \<lparr>service = constructor key, requests = [], console = [], node_env = env,
      fs = files, fs_calls = []\<rparr>"

definition sample_imports :: "string module_imports" where
  "sample_imports =
     \<lparr>parseFigmaFileResponse = (\<lambda>v. Inr (''file '' @ v)),
      parseFigmaResponse = (\<lambda>v. if v = [] then Inl (Thrown ''empty'') else Inr (''nodes '' @ v)),
      JSON_stringify = Inr,
      shortest_digits = (\<lambda>m e. ''0.5'')\<rparr>"

text \<open>A \<open>JSON.stringify\<close> that throws on every value.\<close>

definition circular_stringify :: "'v \<Rightarrow> thrown + string" where
  "circular_stringify v = Inl (Thrown ''Converting circular structure to JSON'')"

section \<open>Sequencing and the request helper\<close>

lemma io_bind_apply:
  "io_bind m k s = (case m s of (Inl e, s') \<Rightarrow> (Inl e, s') | (Inr x, s') \<Rightarrow> k x s')"
  by (simp add: io_bind_def)

lemma try_catch_apply:
  "try_catch m h s = (case m s of (Inl e, s') \<Rightarrow> h e s' | (Inr x, s') \<Rightarrow> (Inr x, s'))"
  by (simp add: try_catch_def)

lemmas io_simps =
  io_bind_apply try_catch_apply io_return_def io_throw_def io_of_def console_write_def
  axios_get_def this_def

lemmas fs_simps =
  process_env_NODE_ENV_def process_cwd_def accessSync_def existsSync_def mkdirSync_def
  writeFileSync_def

lemma request_apply:
  "request remote endpoint s =
     (case remote \<lparr>url = baseUrl (service s) @ endpoint,
                   headers = [(''X-Figma-Token'', apiKey (service s))],
                   responseType = None\<rparr> of
        Resolved d \<Rightarrow> Inr d
      | Rejected (AxiosError (Some (status, data))) \<Rightarrow>
          (case get_err data of
             Inl t \<Rightarrow> Inl t
           | Inr e \<Rightarrow> Inl (FigmaError status (or_unknown_error e)))
      | Rejected _ \<Rightarrow> Inl (Error ''Failed to make request to Figma API''),
      s\<lparr>console := console s @ [Console ''log'' (''Calling '' @ baseUrl (service s) @ endpoint) None],
        requests := requests s
          @ [\<lparr>url = baseUrl (service s) @ endpoint,
              headers = [(''X-Figma-Token'', apiKey (service s))],
              responseType = None\<rparr>]\<rparr>)"
  by (simp add: request_def io_simps
      split: axios_outcome.splits thrown.splits option.splits prod.splits sum.splits)

lemma request_fst_frame:
  "service s' = service s \<Longrightarrow> fst (request remote endpoint s') = fst (request remote endpoint s)"
  by (simp add: request_apply)

lemma request_fst_env:
  "fst (request remote endpoint (s\<lparr>node_env := env, fs := files\<rparr>)) =
   fst (request remote endpoint s)"
  by (simp add: request_apply)

section \<open>The debug log never throws\<close>

lemma writeLogs_returns: "fst (writeLogs js name v s) = Inr ()"
  by (simp add: writeLogs_def io_simps fs_simps Let_def
      split: sum.splits option.splits prod.splits if_splits)

lemma writeLogs_frame:
  "service (snd (writeLogs js name v s)) = service s \<and>
   requests (snd (writeLogs js name v s)) = requests s \<and>
   node_env (snd (writeLogs js name v s)) = node_env s"
  by (simp add: writeLogs_def io_simps fs_simps Let_def
      split: sum.splits option.splits prod.splits if_splits)

lemma writeLogs_off:
  "node_env s \<noteq> Some ''development'' \<Longrightarrow> writeLogs js name v s = (Inr (), s)"
  by (simp add: writeLogs_def io_simps process_env_NODE_ENV_def)

lemma writeLogs_cases:
  "\<exists>s'. writeLogs js name v s = (Inr (), s') \<and> service s' = service s
        \<and> requests s' = requests s \<and> node_env s' = node_env s"
  using writeLogs_returns [of js name v s] writeLogs_frame [of js name v s]
  by (cases "writeLogs js name v s") auto

section \<open>One request per operation\<close>

lemma getFile_apply:
  assumes ep: "ep = ''/files/'' @ fileKey @
       (case depth of None \<Rightarrow> [] | Some d \<Rightarrow>
                        if ToBoolean_number d
                        then ''?depth='' @ Number_toString (shortest_digits ext) d else [])"
  shows "\<exists>s'. getFile ext remote fileKey depth s =
            (case fst (request remote ep s) of
               Inl e \<Rightarrow> Inl e
             | Inr response \<Rightarrow> parseFigmaFileResponse ext response, s')
          \<and> service s' = service s
          \<and> requests s' = requests s
               @ [\<lparr>url = baseUrl (service s) @ ep,
                   headers = [(''X-Figma-Token'', apiKey (service s))],
                   responseType = None\<rparr>]"
proof -
  let ?s1 = "s\<lparr>console := console s @ [Console ''log'' (''Calling '' @ baseUrl (service s) @ ep) None]\<rparr>"
  obtain out s2 where r: "request remote ep ?s1 = (out, s2)"
    by (cases "request remote ep ?s1") auto
  have out: "fst (request remote ep s) = out"
    using r by (simp add: request_apply)
  have s2: "service s2 = service s"
    "requests s2 = requests s @ [\<lparr>url = baseUrl (service s) @ ep,
                   headers = [(''X-Figma-Token'', apiKey (service s))],
                   responseType = None\<rparr>]"
    using r by (auto simp add: request_apply)
  show ?thesis
  proof (cases out)
    case (Inl e)
    then show ?thesis
      unfolding getFile_def Let_def ep [symmetric] using r out s2
      by (simp add: io_simps)
  next
    case (Inr response)
    let ?s3 = "s2\<lparr>console := console s2 @ [Console ''log'' ''Got response'' None]\<rparr>"
    show ?thesis
    proof (cases "parseFigmaFileResponse ext response")
      case (Inl e)
      then show ?thesis
        unfolding getFile_def Let_def ep [symmetric] using r out s2 Inr
        by (simp add: io_simps)
    next
      case d: (Inr d)
      obtain s4 where s4: "writeLogs (JSON_stringify ext) ''figma-raw.json'' response ?s3 = (Inr (), s4)"
        "service s4 = service ?s3" "requests s4 = requests ?s3"
        using writeLogs_cases [of "JSON_stringify ext" "''figma-raw.json''" response ?s3] by blast
      obtain s5 where s5: "writeLogs (JSON_stringify ext) ''figma-simplified.json'' d s4 = (Inr (), s5)"
        "service s5 = service s4" "requests s5 = requests s4"
        using writeLogs_cases [of "JSON_stringify ext" "''figma-simplified.json''" d s4] by blast
      show ?thesis
        unfolding getFile_def Let_def ep [symmetric] using r out s2 Inr d s4 s5
        by (simp add: io_simps)
    qed
  qed
qed


lemma getNode_apply:
  assumes ep: "ep = ''/files/'' @ fileKey @ ''/nodes?ids='' @ nodeId @
       (case depth of None \<Rightarrow> [] | Some d \<Rightarrow>
                        if ToBoolean_number d
                        then ''&depth='' @ Number_toString (shortest_digits ext) d else [])"
  shows "\<exists>s'. getNode ext remote fileKey nodeId depth s =
            (case fst (request remote ep s) of
               Inl e \<Rightarrow> Inl e
             | Inr response \<Rightarrow> parseFigmaResponse ext response, s')
          \<and> service s' = service s
          \<and> requests s' = requests s
               @ [\<lparr>url = baseUrl (service s) @ ep,
                   headers = [(''X-Figma-Token'', apiKey (service s))],
                   responseType = None\<rparr>]"
proof -
  obtain out s2 where r: "request remote ep s = (out, s2)"
    by (cases "request remote ep s") auto
  have s2: "service s2 = service s"
    "requests s2 = requests s @ [\<lparr>url = baseUrl (service s) @ ep,
                   headers = [(''X-Figma-Token'', apiKey (service s))],
                   responseType = None\<rparr>]"
    using r by (auto simp add: request_apply)
  show ?thesis
  proof (cases out)
    case (Inl e)
    then show ?thesis
      unfolding getNode_def Let_def ep [symmetric] using r s2
      by (simp add: io_simps)
  next
    case (Inr response)
    obtain s3 where s3: "writeLogs (JSON_stringify ext) ''figma-raw.json'' response s2 = (Inr (), s3)"
      "service s3 = service s2" "requests s3 = requests s2"
      using writeLogs_cases [of "JSON_stringify ext" "''figma-raw.json''" response s2] by blast
    show ?thesis
    proof (cases "parseFigmaResponse ext response")
      case (Inl e)
      then show ?thesis
        unfolding getNode_def Let_def ep [symmetric] using r s2 Inr s3
        by (simp add: io_simps)
    next
      case d: (Inr d)
      obtain s4 where s4: "writeLogs (JSON_stringify ext) ''figma-simplified.json'' d s3 = (Inr (), s4)"
        "service s4 = service s3" "requests s4 = requests s3"
        using writeLogs_cases [of "JSON_stringify ext" "''figma-simplified.json''" d s3] by blast
      show ?thesis
        unfolding getNode_def Let_def ep [symmetric] using r s2 Inr d s3 s4
        by (simp add: io_simps)
    qed
  qed
qed

lemma getNodeImage_apply:
  assumes fid: "fid = replace nodeId ''-'' '':''"
    and ep: "ep = ''/images/'' @ fileKey @ ''?ids='' @ fid @ ''&scale=1&format=png''"
  shows "\<exists>s'. getNodeImage remote fileKey nodeId s =
            (case fst (request remote ep s) of
               Inl e \<Rightarrow> Inl e
             | Inr response \<Rightarrow>
                 (case response of
                    None \<Rightarrow> Inl TypeError
                  | Some body \<Rightarrow>
                      (case truthy (err body) of
                         Some message \<Rightarrow> Inl (Error message)
                       | None \<Rightarrow>
                           (case images body of
                              None \<Rightarrow> Inl TypeError
                            | Some object \<Rightarrow>
                                if ToBoolean_property (get_property object fid)
                                then Inr (get_property object fid)
                                else Inl (Error (''No image URL found for node '' @ fid))))), s')
          \<and> service s' = service s
          \<and> requests s' = requests s
               @ [\<lparr>url = baseUrl (service s) @ ep,
                   headers = [(''X-Figma-Token'', apiKey (service s))],
                   responseType = None\<rparr>]"
  unfolding getNodeImage_def Let_def fid [symmetric] ep [symmetric]
  by (simp add: io_simps request_apply
      split: axios_outcome.splits thrown.splits option.splits prod.splits sum.splits)

lemma fetchImageData_apply:
  "\<exists>s'. fetchImageData remote imageUrl s =
          (case remote \<lparr>url = imageUrl, headers = [], responseType = Some ''arraybuffer''\<rparr> of
             Resolved bytes \<Rightarrow> Inr (toString_base64 bytes)
           | Rejected e \<Rightarrow> Inl e, s')
        \<and> service s' = service s
        \<and> requests s' = requests s
             @ [\<lparr>url = imageUrl, headers = [], responseType = Some ''arraybuffer''\<rparr>]"
  unfolding fetchImageData_def Let_def
  by (simp add: io_simps Buffer_from_def split: axios_outcome.splits)


section \<open>Replacing the first hyphen\<close>

lemma replace_hyphen_absent: "CHR ''-'' \<notin> set s \<Longrightarrow> replace s ''-'' '':'' = s"
  by (induction s) auto

lemma replace_hyphen_first:
  "CHR ''-'' \<notin> set pre \<Longrightarrow> replace (pre @ CHR ''-'' # post) ''-'' '':'' = pre @ CHR '':'' # post"
  by (induction pre) auto


section \<open>Base64 round trip\<close>

lemma index_of_nth:
  "distinct xs \<Longrightarrow> i < length xs \<Longrightarrow> index_of xs (xs ! i) = Some i"
proof (induction xs arbitrary: i)
  case Nil
  then show ?case by simp
next
  case (Cons x xs)
  show ?case
  proof (cases i)
    case 0
    then show ?thesis by simp
  next
    case (Suc j)
    with Cons.prems have "j < length xs" "xs ! j \<in> set xs" "x \<notin> set xs" "distinct xs"
      by auto
    with Cons.IH [of j] Suc show ?thesis by auto
  qed
qed

lemma b64_alphabet_length: "length b64_alphabet = 64"
  by (simp add: b64_alphabet_def)

lemma b64_alphabet_distinct: "distinct b64_alphabet"
  by (simp add: b64_alphabet_def)

lemma b64_alphabet_no_pad: "CHR ''='' \<notin> set b64_alphabet"
  by (simp add: b64_alphabet_def)

lemma b64_index_char: "i < 64 \<Longrightarrow> b64_index (b64_char i) = Some i"
  by (simp add: b64_index_def b64_char_def index_of_nth b64_alphabet_distinct b64_alphabet_length)

lemma b64_char_no_pad:
  assumes "i < 64"
  shows "b64_char i \<noteq> CHR ''=''"
proof
  assume "b64_char i = CHR ''=''"
  moreover have "b64_alphabet ! i \<in> set b64_alphabet"
    using assms by (intro nth_mem) (simp add: b64_alphabet_length)
  ultimately show False
    using b64_alphabet_no_pad by (simp add: b64_char_def)
qed

lemma byte_bound: "unat (a :: byte) < 256"
  using unsigned_less [of a, where ?'a = nat] by simp

lemma group_div: "y < n \<Longrightarrow> (x * n + y) div n = (x::nat)"
  by simp

lemma group_mod: "y < n \<Longrightarrow> (x * n + y) mod n = (y::nat)"
  by simp

lemma div4_bound: "a < (256::nat) \<Longrightarrow> a div 4 < 64"
  by arith

lemma div16_bound: "a < (256::nat) \<Longrightarrow> a div 16 < 16"
  by arith

lemma div64_bound: "a < (256::nat) \<Longrightarrow> a div 64 < 4"
  by arith

lemma sextet2_bound: "b < (256::nat) \<Longrightarrow> a mod 4 * 16 + b div 16 < 64"
  by arith

lemma sextet3_bound: "b < (256::nat) \<Longrightarrow> a mod 16 * 4 + b div 64 < 64"
  by arith

lemma sextet2_pad_bound: "a mod 4 * 16 < (64::nat)"
  by arith

lemma sextet3_pad_bound: "a mod 16 * 4 < (64::nat)"
  by arith

lemma join_first: "b < (256::nat) \<Longrightarrow> a div 4 * 4 + (a mod 4 * 16 + b div 16) div 16 = a"
  by (simp add: group_div div16_bound)

lemma join_second:
  "b < (256::nat) \<Longrightarrow> c < 256 \<Longrightarrow>
   (a mod 4 * 16 + b div 16) mod 16 * 16 + (b mod 16 * 4 + c div 64) div 4 = b"
  by (simp add: group_div group_mod div16_bound div64_bound)

lemma join_third: "c < (256::nat) \<Longrightarrow> (b mod 16 * 4 + c div 64) mod 4 * 64 + c mod 64 = c"
  by (simp add: group_mod div64_bound)

lemma join_first_pad: "a div 4 * 4 + (a mod 4 * 16) div 16 = (a::nat)"
  by simp

lemma join_second_pad:
  "b < (256::nat) \<Longrightarrow> (a mod 4 * 16 + b div 16) mod 16 * 16 + (b mod 16 * 4) div 4 = b"
  by (simp add: group_mod div16_bound)

lemma byte_of_unat: "word_of_nat (unat a) = (a::byte)"
  by simp

lemma byte_join_first:
  "word_of_nat (unat a div 4 * 4 + (unat a mod 4 * 16 + unat (b::byte) div 16) div 16) = (a::byte)"
  by (simp only: join_first [OF byte_bound] byte_of_unat)

lemma byte_join_second:
  "word_of_nat ((unat (a::byte) mod 4 * 16 + unat b div 16) mod 16 * 16
                 + (unat b mod 16 * 4 + unat (c::byte) div 64) div 4) = (b::byte)"
  by (simp only: join_second [OF byte_bound byte_bound] byte_of_unat)

lemma byte_join_third:
  "word_of_nat ((unat (b::byte) mod 16 * 4 + unat c div 64) mod 4 * 64 + unat c mod 64) = (c::byte)"
  by (simp only: join_third [OF byte_bound] byte_of_unat)

lemma byte_join_first_pad:
  "word_of_nat (unat a div 4 * 4 + (unat a mod 4 * 16) div 16) = (a::byte)"
  by (simp only: join_first_pad byte_of_unat)

lemma byte_join_second_pad:
  "word_of_nat ((unat (a::byte) mod 4 * 16 + unat b div 16) mod 16 * 16 + (unat b mod 16 * 4) div 4)
     = (b::byte)"
  by (simp only: join_second_pad [OF byte_bound] byte_of_unat)

lemmas decode_steps =
  toString_base64.simps base64_decode.simps option.case prod.case option.map
  simp_thms if_True if_False append_Cons append_Nil

lemma base64_roundtrip: "base64_decode (toString_base64 bytes) = Some bytes"
proof (induction bytes rule: toString_base64.induct)
  case 1
  show ?case by simp
next
  case (2 a)
  have idx: "b64_index (b64_char (unat a div 4)) = Some (unat a div 4)"
    "b64_index (b64_char (unat a mod 4 * 16)) = Some (unat a mod 4 * 16)"
    by (simp_all add: b64_index_char div4_bound byte_bound sextet2_pad_bound)
  show ?case
    by (simp only: decode_steps idx byte_join_first_pad)
next
  case (3 a b)
  have idx: "b64_index (b64_char (unat a div 4)) = Some (unat a div 4)"
    "b64_index (b64_char (unat a mod 4 * 16 + unat b div 16)) = Some (unat a mod 4 * 16 + unat b div 16)"
    "b64_index (b64_char (unat b mod 16 * 4)) = Some (unat b mod 16 * 4)"
    by (simp_all add: b64_index_char div4_bound byte_bound sextet2_bound sextet3_pad_bound)
  have pad: "b64_char (unat b mod 16 * 4) \<noteq> CHR ''=''"
    by (simp add: b64_char_no_pad sextet3_pad_bound)
  show ?case
    by (simp only: decode_steps idx pad byte_join_first byte_join_second_pad)
next
  case (4 a b c rest)
  have idx: "b64_index (b64_char (unat a div 4)) = Some (unat a div 4)"
    "b64_index (b64_char (unat a mod 4 * 16 + unat b div 16)) = Some (unat a mod 4 * 16 + unat b div 16)"
    "b64_index (b64_char (unat b mod 16 * 4 + unat c div 64)) = Some (unat b mod 16 * 4 + unat c div 64)"
    "b64_index (b64_char (unat c mod 64)) = Some (unat c mod 64)"
    by (simp_all add: b64_index_char div4_bound byte_bound sextet2_bound sextet3_bound)
  have pad: "b64_char (unat b mod 16 * 4 + unat c div 64) \<noteq> CHR ''=''"
    "b64_char (unat c mod 64) \<noteq> CHR ''=''"
    by (simp_all add: b64_char_no_pad sextet3_bound byte_bound)
  show ?case
    by (simp only: decode_steps idx pad "4.IH" byte_join_first byte_join_second byte_join_third)
qed

section \<open>Outcome and requests of each operation\<close>

lemma request_fst:
  "fst (request remote endpoint s) =
     (case remote \<lparr>url = baseUrl (service s) @ endpoint,
                   headers = [(''X-Figma-Token'', apiKey (service s))],
                   responseType = None\<rparr> of
        Resolved d \<Rightarrow> Inr d
      | Rejected (AxiosError (Some (status, data))) \<Rightarrow>
          (case get_err data of
             Inl t \<Rightarrow> Inl t
           | Inr e \<Rightarrow> Inl (FigmaError status (or_unknown_error e)))
      | Rejected _ \<Rightarrow> Inl (Error ''Failed to make request to Figma API''))"
  by (simp add: request_apply)

lemma getFile_fst:
  "fst (getFile ext remote fileKey depth s) =
     (case fst (request remote
                  (''/files/'' @ fileKey @
                   (case depth of
                      None \<Rightarrow> []
                    | Some d \<Rightarrow>
                        if ToBoolean_number d
                        then ''?depth='' @ Number_toString (shortest_digits ext) d else [])) s) of
        Inl e \<Rightarrow> Inl e
      | Inr response \<Rightarrow> parseFigmaFileResponse ext response)"
  using getFile_apply [OF refl, of ext remote fileKey depth s] by (elim exE conjE) simp

lemma getFile_snd:
  "service (snd (getFile ext remote fileKey depth s)) = service s \<and>
   requests (snd (getFile ext remote fileKey depth s)) =
     requests s
     @ [\<lparr>url = baseUrl (service s) @ ''/files/'' @ fileKey @
               (case depth of
                  None \<Rightarrow> []
                | Some d \<Rightarrow>
                        if ToBoolean_number d
                        then ''?depth='' @ Number_toString (shortest_digits ext) d else []),
         headers = [(''X-Figma-Token'', apiKey (service s))],
         responseType = None\<rparr>]"
  using getFile_apply [OF refl, of ext remote fileKey depth s] by (elim exE conjE) simp

lemma getNode_fst:
  "fst (getNode ext remote fileKey nodeId depth s) =
     (case fst (request remote
                  (''/files/'' @ fileKey @ ''/nodes?ids='' @ nodeId @
                   (case depth of
                      None \<Rightarrow> []
                    | Some d \<Rightarrow>
                        if ToBoolean_number d
                        then ''&depth='' @ Number_toString (shortest_digits ext) d else [])) s) of
        Inl e \<Rightarrow> Inl e
      | Inr response \<Rightarrow> parseFigmaResponse ext response)"
  using getNode_apply [OF refl, of ext remote fileKey nodeId depth s] by (elim exE conjE) simp

lemma getNode_snd:
  "service (snd (getNode ext remote fileKey nodeId depth s)) = service s \<and>
   requests (snd (getNode ext remote fileKey nodeId depth s)) =
     requests s
     @ [\<lparr>url = baseUrl (service s) @ ''/files/'' @ fileKey @ ''/nodes?ids='' @ nodeId @
               (case depth of
                  None \<Rightarrow> []
                | Some d \<Rightarrow>
                        if ToBoolean_number d
                        then ''&depth='' @ Number_toString (shortest_digits ext) d else []),
         headers = [(''X-Figma-Token'', apiKey (service s))],
         responseType = None\<rparr>]"
  using getNode_apply [OF refl, of ext remote fileKey nodeId depth s] by (elim exE conjE) simp

lemma getNodeImage_fst:
  "fst (getNodeImage remote fileKey nodeId s) =
     (case fst (request remote
                  (''/images/'' @ fileKey @ ''?ids='' @ replace nodeId ''-'' '':''
                   @ ''&scale=1&format=png'') s) of
        Inl e \<Rightarrow> Inl e
      | Inr response \<Rightarrow>
          (case response of
                    None \<Rightarrow> Inl TypeError
                  | Some body \<Rightarrow>
                      (case truthy (err body) of
                         Some message \<Rightarrow> Inl (Error message)
                       | None \<Rightarrow>
                           (case images body of
                              None \<Rightarrow> Inl TypeError
                            | Some object \<Rightarrow>
                                if ToBoolean_property (get_property object (replace nodeId ''-'' '':''))
                                then Inr (get_property object (replace nodeId ''-'' '':''))
                                else Inl (Error (''No image URL found for node '' @ (replace nodeId ''-'' '':'')))))))"
  using getNodeImage_apply [OF refl refl, of remote fileKey nodeId s] by (elim exE conjE) simp

lemma getNodeImage_snd:
  "service (snd (getNodeImage remote fileKey nodeId s)) = service s \<and>
   requests (snd (getNodeImage remote fileKey nodeId s)) =
     requests s
     @ [\<lparr>url = baseUrl (service s) @ ''/images/'' @ fileKey @ ''?ids=''
               @ replace nodeId ''-'' '':'' @ ''&scale=1&format=png'',
         headers = [(''X-Figma-Token'', apiKey (service s))],
         responseType = None\<rparr>]"
  using getNodeImage_apply [OF refl refl, of remote fileKey nodeId s] by (elim exE conjE) simp

lemma fetchImageData_fst:
  "fst (fetchImageData remote imageUrl s) =
     (case remote \<lparr>url = imageUrl, headers = [], responseType = Some ''arraybuffer''\<rparr> of
        Resolved bytes \<Rightarrow> Inr (toString_base64 bytes)
      | Rejected e \<Rightarrow> Inl e)"
  using fetchImageData_apply [of remote imageUrl s] by (elim exE conjE) simp

lemma fetchImageData_snd:
  "service (snd (fetchImageData remote imageUrl s)) = service s \<and>
   requests (snd (fetchImageData remote imageUrl s)) =
     requests s @ [\<lparr>url = imageUrl, headers = [], responseType = Some ''arraybuffer''\<rparr>]"
  using fetchImageData_apply [of remote imageUrl s] by (elim exE conjE) simp

text \<open>
  What the lookup of \<open>getNodeImage\<close> yields on a body with a falsy error field and a
  mapping, for a normalized node id that is not the name of an inherited property: the
  not-found error when the mapping lacks the id or maps it to null or to the empty string,
  the mapped URL otherwise.
\<close>

lemma getNodeImage_lookup_own:
  assumes "fid = replace nodeId ''-'' '':''"
    and "sent = \<lparr>url = baseUrl (service s) @ ''/images/'' @ fileKey @ ''?ids='' @ fid
                          @ ''&scale=1&format=png'',
                   headers = [(''X-Figma-Token'', apiKey (service s))],
                   responseType = None\<rparr>"
    and "remote sent = Resolved (Some \<lparr>err = e, images = Some mapping\<rparr>)"
    and "e = None \<or> e = Some []"
    and "fid \<notin> set Object_prototype"
  shows "((mapping fid = None \<or> mapping fid = Some None \<or> mapping fid = Some (Some [])) \<longrightarrow>
            fst (getNodeImage remote fileKey nodeId s) =
              Inl (Error (''No image URL found for node '' @ fid)))
       \<and> (\<forall>u. mapping fid = Some (Some u) \<and> u \<noteq> [] \<longrightarrow>
            fst (getNodeImage remote fileKey nodeId s) = Inr (OwnString u))"
  using assms
  by (auto simp add: getNodeImage_fst request_fst truthy_def get_property_def
      ToBoolean_property_def)

section \<open>The claims\<close>




text \<open>
  C2. \<open>getNodeImage\<close> puts the node id into the request URL with exactly its first
  hyphen replaced by a colon (whatever stands before the first hyphen and everything after
  it, later hyphens included, is kept); a node id without a hyphen is sent unchanged.
\<close>

theorem getNodeImage_normalizes_node_id:
  "(CHR ''-'' \<notin> set pre \<longrightarrow>
      map url (requests (snd (getNodeImage remote fileKey (pre @ ''-'' @ post) s))) =
        map url (requests s)
        @ [baseUrl (service s) @ ''/images/'' @ fileKey @ ''?ids='' @ pre @ '':'' @ post
           @ ''&scale=1&format=png''])
   \<and> (CHR ''-'' \<notin> set nodeId \<longrightarrow>
      map url (requests (snd (getNodeImage remote fileKey nodeId s))) =
        map url (requests s)
        @ [baseUrl (service s) @ ''/images/'' @ fileKey @ ''?ids='' @ nodeId
           @ ''&scale=1&format=png''])"
  by (simp add: getNodeImage_snd replace_hyphen_first replace_hyphen_absent)

theorem getNodeImage_normalizes_node_id_witness:
  "map url (requests (snd (getNodeImage (always (Rejected (AxiosError None))) ''KEY'' ''123-456''
      (initial_state ''figd_key'' None writable_fs))))
     = [''https://api.figma.com/v1/images/KEY?ids=123:456&scale=1&format=png'']
   \<and> map url (requests (snd (getNodeImage (always (Rejected (AxiosError None))) ''KEY'' ''1-2-3''
      (initial_state ''figd_key'' None writable_fs))))
     = [''https://api.figma.com/v1/images/KEY?ids=1:2-3&scale=1&format=png'']
   \<and> map url (requests (snd (getNodeImage (always (Rejected (AxiosError None))) ''KEY'' ''123:456''
      (initial_state ''figd_key'' None writable_fs))))
     = [''https://api.figma.com/v1/images/KEY?ids=123:456&scale=1&format=png'']"
  using
    getNodeImage_normalizes_node_id [of "''123''" "always (Rejected (AxiosError None))" "''KEY''"
      "''456''" "initial_state ''figd_key'' None writable_fs" "''123:456''"]
    getNodeImage_normalizes_node_id [of "''1''" "always (Rejected (AxiosError None))" "''KEY''"
      "''2-3''" "initial_state ''figd_key'' None writable_fs" "''123:456''"]
  by (simp add: initial_state_def constructor_def)

text \<open>
  C3. When the image response carries a non-empty error field, \<open>getNodeImage\<close> throws an
  \<open>Error\<close> with that message, whatever the mapping of the same response holds.
\<close>

theorem getNodeImage_error_field_wins:
  assumes "sent = \<lparr>url = baseUrl (service s) @ ''/images/'' @ fileKey @ ''?ids=''
                          @ replace nodeId ''-'' '':'' @ ''&scale=1&format=png'',
                   headers = [(''X-Figma-Token'', apiKey (service s))],
                   responseType = None\<rparr>"
    and "remote sent = Resolved (Some \<lparr>err = Some message, images = mapping\<rparr>)"
    and "message \<noteq> []"
  shows "fst (getNodeImage remote fileKey nodeId s) = Inl (Error message)"
  using assms by (simp add: getNodeImage_fst request_fst truthy_def)

theorem getNodeImage_error_field_wins_witness:
  "fst (getNodeImage
          (always (Resolved (Some \<lparr>err = Some ''Render timeout'',
                                   images = Some [''1:2'' \<mapsto> Some ''https://img.example/1.png'']\<rparr>)))
          ''KEY'' ''1-2'' (initial_state ''figd_key'' None writable_fs))
     = Inl (Error ''Render timeout'')"
  using getNodeImage_error_field_wins [OF refl, of
      "always (Resolved (Some \<lparr>err = Some ''Render timeout'',
                                images = Some [''1:2'' \<mapsto> Some ''https://img.example/1.png'']\<rparr>))"
      "initial_state ''figd_key'' None writable_fs" "''KEY''" "''1-2''" "''Render timeout''"
      "Some [''1:2'' \<mapsto> Some ''https://img.example/1.png'']"]
  by (simp add: always_def)

text \<open>
  C4. The lookup \<open>response.images[formattedNodeId]\<close> also finds what every object
  inherits: for the node id \<open>toString\<close> and an empty mapping, \<open>getNodeImage\<close> does not
  throw the not-found error but returns the inherited member of \<open>Object.prototype\<close>.
\<close>

theorem getNodeImage_inherited_property:
  "fst (getNodeImage (always (Resolved (Some \<lparr>err = None, images = Some Map.empty\<rparr>)))
          ''KEY'' ''toString'' (initial_state ''figd_key'' None writable_fs))
     = Inr (Inherited ''toString'')"
  by (simp add: getNodeImage_fst request_fst always_def truthy_def get_property_def
      ToBoolean_property_def Object_prototype_def)

text \<open>
  C5, as stated, fails: the request issued by \<open>fetchImageData\<close> goes to the caller's
  URL with no headers of the client, so the credential is not sent on it.
\<close>

theorem fetchImageData_sends_no_credential:
  "map headers
     (requests (snd (fetchImageData (always (Resolved [])) ''https://img.example/1.png''
                       (initial_state ''figd_key'' None writable_fs))))
     = [[]]"
  by (simp add: fetchImageData_snd initial_state_def)

text \<open>
  C5, amended. The credential given to the constructor is the \<open>apiKey\<close> of the client;
  no operation changes the client; \<open>getFile\<close>, \<open>getNode\<close> and \<open>getNodeImage\<close> each
  issue one request, which carries the header \<open>X-Figma-Token\<close> with that credential;
  the one request of \<open>fetchImageData\<close> carries no header of the client.
\<close>

theorem credential_header_on_api_requests:
  "apiKey (constructor key) = key
   \<and> service (snd (getFile ext remote fileKey depth s)) = service s
   \<and> service (snd (getNode ext remote fileKey nodeId depth s)) = service s
   \<and> service (snd (getNodeImage remote_images fileKey nodeId s)) = service s
   \<and> service (snd (fetchImageData remote_bytes imageUrl s)) = service s
   \<and> map headers (requests (snd (getFile ext remote fileKey depth s))) =
        map headers (requests s) @ [[(''X-Figma-Token'', apiKey (service s))]]
   \<and> map headers (requests (snd (getNode ext remote fileKey nodeId depth s))) =
        map headers (requests s) @ [[(''X-Figma-Token'', apiKey (service s))]]
   \<and> map headers (requests (snd (getNodeImage remote_images fileKey nodeId s))) =
        map headers (requests s) @ [[(''X-Figma-Token'', apiKey (service s))]]
   \<and> map headers (requests (snd (fetchImageData remote_bytes imageUrl s))) =
        map headers (requests s) @ [[]]"
  by (simp add: constructor_def getFile_snd getNode_snd getNodeImage_snd fetchImageData_snd)

theorem credential_header_on_api_requests_witness:
  "map headers
     (requests (snd (getFile sample_imports (always (Resolved ''{}'')) ''abc'' None
                       (initial_state ''figd_key'' None writable_fs))))
     = [[(''X-Figma-Token'', ''figd_key'')]]
   \<and> service (snd (getFile sample_imports (always (Resolved ''{}'')) ''abc'' None
                       (initial_state ''figd_key'' None writable_fs)))
     = constructor ''figd_key''"
  using credential_header_on_api_requests [of "''figd_key''" sample_imports
      "always (Resolved ''{}'')" "''abc''" None "initial_state ''figd_key'' None writable_fs"]
  by (simp add: initial_state_def constructor_def)

text \<open>
  C6, as stated, fails: a depth of zero is supplied, and the request of \<open>getFile\<close> has
  no depth parameter.
\<close>

theorem getFile_depth_zero_omitted:
  "map url
     (requests (snd (getFile sample_imports (always (Resolved ''{}'')) ''abc'' (Some (Finite 0 0))
                       (initial_state ''figd_key'' None writable_fs))))
     = [''https://api.figma.com/v1/files/abc'']"
  by (simp add: getFile_snd initial_state_def constructor_def ToBoolean_number_def)

text \<open>
  C6, amended. \<open>getFile\<close> requests \<open>/files/{id}\<close> and \<open>getNode\<close> requests
  \<open>/files/{id}/nodes?ids={node}\<close>, each with the depth parameter appended exactly when a
  depth is supplied and is truthy, that is neither zero nor \<open>NaN\<close>; the parameter carries
  the depth as \<open>Number::toString\<close> prints it.
\<close>

theorem depth_parameter_when_truthy:
  "map url (requests (snd (getFile ext remote fileKey depth s))) =
     map url (requests s)
     @ [baseUrl (service s) @ ''/files/'' @ fileKey @
        (case depth of
           None \<Rightarrow> []
         | Some d \<Rightarrow>
             if d = NaN \<or> (\<exists>e. d = Finite 0 e) then []
             else ''?depth='' @ Number_toString (shortest_digits ext) d)]
   \<and> map url (requests (snd (getNode ext remote fileKey nodeId depth s))) =
     map url (requests s)
     @ [baseUrl (service s) @ ''/files/'' @ fileKey @ ''/nodes?ids='' @ nodeId @
        (case depth of
           None \<Rightarrow> []
         | Some d \<Rightarrow>
             if d = NaN \<or> (\<exists>e. d = Finite 0 e) then []
             else ''&depth='' @ Number_toString (shortest_digits ext) d)]"
proof -
  have truthy_iff: "ToBoolean_number d \<longleftrightarrow> \<not> (d = NaN \<or> (\<exists>e. d = Finite 0 e))" for d
    by (cases d) (simp_all add: ToBoolean_number_def)
  show ?thesis
    by (simp add: getFile_snd getNode_snd truthy_iff split: option.splits)
qed

theorem depth_parameter_when_truthy_witness:
  "map url
     (requests (snd (getFile sample_imports (always (Resolved ''{}'')) ''abc'' (Some (Finite 3 0))
                       (initial_state ''figd_key'' None writable_fs))))
     = [''https://api.figma.com/v1/files/abc?depth=3'']
   \<and> map url
     (requests (snd (getNode sample_imports (always (Resolved ''{}'')) ''abc'' ''1:2''
                       (Some (Finite 12 0)) (initial_state ''figd_key'' None writable_fs))))
     = [''https://api.figma.com/v1/files/abc/nodes?ids=1:2&depth=12'']
   \<and> map url
     (requests (snd (getNode sample_imports (always (Resolved ''{}'')) ''abc'' ''1:2'' None
                       (initial_state ''figd_key'' None writable_fs))))
     = [''https://api.figma.com/v1/files/abc/nodes?ids=1:2'']
   \<and> map url
     (requests (snd (getFile sample_imports (always (Resolved ''{}'')) ''abc'' (Some NaN)
                       (initial_state ''figd_key'' None writable_fs))))
     = [''https://api.figma.com/v1/files/abc'']
   \<and> map url
     (requests (snd (getFile sample_imports (always (Resolved ''{}'')) ''abc''
                       (Some PosInfinity) (initial_state ''figd_key'' None writable_fs))))
     = [''https://api.figma.com/v1/files/abc?depth=Infinity'']
   \<and> map url
     (requests (snd (getFile sample_imports (always (Resolved ''{}'')) ''abc''
                       (Some (Finite 1 (- 1))) (initial_state ''figd_key'' None writable_fs))))
     = [''https://api.figma.com/v1/files/abc?depth=0.5'']"
  using
    depth_parameter_when_truthy [of sample_imports "always (Resolved ''{}'')" "''abc''"
      "Some (Finite 3 0)" "initial_state ''figd_key'' None writable_fs" "''1:2''"]
    depth_parameter_when_truthy [of sample_imports "always (Resolved ''{}'')" "''abc''"
      "Some (Finite 12 0)" "initial_state ''figd_key'' None writable_fs" "''1:2''"]
    depth_parameter_when_truthy [of sample_imports "always (Resolved ''{}'')" "''abc''" None
      "initial_state ''figd_key'' None writable_fs" "''1:2''"]
    depth_parameter_when_truthy [of sample_imports "always (Resolved ''{}'')" "''abc''"
      "Some NaN" "initial_state ''figd_key'' None writable_fs" "''1:2''"]
    depth_parameter_when_truthy [of sample_imports "always (Resolved ''{}'')" "''abc''"
      "Some PosInfinity" "initial_state ''figd_key'' None writable_fs" "''1:2''"]
    depth_parameter_when_truthy [of sample_imports "always (Resolved ''{}'')" "''abc''"
      "Some (Finite 1 (- 1))" "initial_state ''figd_key'' None writable_fs" "''1:2''"]
  by (simp add: initial_state_def constructor_def Number_toString_def integer_value_def
      digits.simps sample_imports_def)

text \<open>
  C7. \<open>writeLogs\<close> always returns normally, whatever the flag, the file system and
  \<open>JSON.stringify\<close> do; when \<open>NODE_ENV\<close> is not \<open>development\<close> it leaves the state as
  it was (no file system call, nothing written); and the outcome of \<open>getFile\<close> and of
  \<open>getNode\<close> is the same under every flag, every file system and every
  \<open>JSON.stringify\<close>.
\<close>

theorem writeLogs_never_raises:
  "fst (writeLogs stringify name v s) = Inr ()
   \<and> (node_env s \<noteq> Some ''development'' \<longrightarrow> snd (writeLogs stringify name v s) = s)
   \<and> fst (getFile (ext\<lparr>JSON_stringify := stringify'\<rparr>) remote fileKey depth
            (s\<lparr>node_env := env, fs := files\<rparr>)) =
       fst (getFile ext remote fileKey depth s)
   \<and> fst (getNode (ext\<lparr>JSON_stringify := stringify'\<rparr>) remote fileKey nodeId depth
            (s\<lparr>node_env := env, fs := files\<rparr>)) =
       fst (getNode ext remote fileKey nodeId depth s)"
  by (simp add: writeLogs_returns writeLogs_off getFile_fst getNode_fst request_fst_env
      cong: sum.case_cong option.case_cong if_cong)

theorem writeLogs_never_raises_witness:
  "fst (writeLogs Inr ''figma-raw.json'' ''{}''
          (initial_state ''figd_key'' (Some ''development'') (broken_fs (Thrown ''EACCES''))))
     = Inr ()
   \<and> fst (writeLogs (circular_stringify) ''figma-raw.json'' ''{}''
          (initial_state ''figd_key'' (Some ''development'') writable_fs))
     = Inr ()
   \<and> snd (writeLogs Inr ''figma-raw.json'' ''{}'' (initial_state ''figd_key'' None writable_fs))
     = initial_state ''figd_key'' None writable_fs
   \<and> snd (writeLogs Inr ''figma-raw.json'' ''{}''
          (initial_state ''figd_key'' (Some ''production'') (broken_fs (Thrown ''EACCES''))))
     = initial_state ''figd_key'' (Some ''production'') (broken_fs (Thrown ''EACCES''))
   \<and> fs_calls (snd (writeLogs Inr ''figma-raw.json'' ''{}''
          (initial_state ''figd_key'' (Some ''development'') writable_fs)))
     = [Cwd, AccessSync ''/app'', ExistsSync ''logs'', MkdirSync ''logs'',
        WriteFileSync ''logs/figma-raw.json'' ''{}'']"
proof -
  have calls:
    "fs_calls (snd (writeLogs Inr ''figma-raw.json'' ''{}''
          (initial_state ''figd_key'' (Some ''development'') writable_fs)))
     = [Cwd, AccessSync ''/app'', ExistsSync ''logs'', MkdirSync ''logs'',
        WriteFileSync ''logs/figma-raw.json'' ''{}'']"
    by (simp add: initial_state_def writeLogs_def io_simps fs_simps writable_fs_def Let_def)
  show ?thesis
    using
      writeLogs_never_raises [THEN conjunct1, of Inr "''figma-raw.json''" "''{}''"
        "initial_state ''figd_key'' (Some ''development'') (broken_fs (Thrown ''EACCES''))"]
      writeLogs_never_raises [THEN conjunct1, of circular_stringify "''figma-raw.json''" "''{}''"
        "initial_state ''figd_key'' (Some ''development'') writable_fs"]
      writeLogs_never_raises [THEN conjunct2, THEN conjunct1, of
        "initial_state ''figd_key'' None writable_fs" Inr "''figma-raw.json''" "''{}''"]
      writeLogs_never_raises [THEN conjunct2, THEN conjunct1, of
        "initial_state ''figd_key'' (Some ''production'') (broken_fs (Thrown ''EACCES''))"
        Inr "''figma-raw.json''" "''{}''"]
      calls
    by (simp add: initial_state_def)
qed

text \<open>
  C8. When the request helper returns a payload, \<open>getFile\<close> yields exactly what
  \<open>parseFigmaFileResponse\<close> yields on that payload and \<open>getNode\<close> exactly what
  \<open>parseFigmaResponse\<close> yields on it: the transformer's value on success, the
  transformer's own thrown value on failure. When the request helper throws, the caller
  gets that thrown value. Either way exactly one request is issued (no retry).
\<close>

theorem fetch_passthrough:
  assumes "file_endpoint =
             ''/files/'' @ fileKey @
             (case depth of
                None \<Rightarrow> []
              | Some d \<Rightarrow>
                        if ToBoolean_number d
                        then ''?depth='' @ Number_toString (shortest_digits ext) d else [])"
    and "nodes_endpoint =
             ''/files/'' @ fileKey @ ''/nodes?ids='' @ nodeId @
             (case depth of
                None \<Rightarrow> []
              | Some d \<Rightarrow>
                        if ToBoolean_number d
                        then ''&depth='' @ Number_toString (shortest_digits ext) d else [])"
  shows "(\<forall>payload. fst (request remote file_endpoint s) = Inr payload \<longrightarrow>
            fst (getFile ext remote fileKey depth s) = parseFigmaFileResponse ext payload)
       \<and> (\<forall>e. fst (request remote file_endpoint s) = Inl e \<longrightarrow>
            fst (getFile ext remote fileKey depth s) = Inl e)
       \<and> length (requests (snd (getFile ext remote fileKey depth s))) = Suc (length (requests s))
       \<and> (\<forall>payload. fst (request remote nodes_endpoint s) = Inr payload \<longrightarrow>
            fst (getNode ext remote fileKey nodeId depth s) = parseFigmaResponse ext payload)
       \<and> (\<forall>e. fst (request remote nodes_endpoint s) = Inl e \<longrightarrow>
            fst (getNode ext remote fileKey nodeId depth s) = Inl e)
       \<and> length (requests (snd (getNode ext remote fileKey nodeId depth s)))
            = Suc (length (requests s))"
  unfolding assms
  by (simp add: getFile_fst getFile_snd getNode_fst getNode_snd)

theorem fetch_passthrough_witness:
  "fst (getFile sample_imports (always (Resolved ''{}'')) ''abc'' None
          (initial_state ''figd_key'' None writable_fs))
     = Inr ''file {}''
   \<and> fst (getNode sample_imports (always (Resolved ''{}'')) ''abc'' ''1:2'' None
          (initial_state ''figd_key'' None writable_fs))
     = Inr ''nodes {}''
   \<and> fst (getNode sample_imports (always (Resolved [])) ''abc'' ''1:2'' None
          (initial_state ''figd_key'' None writable_fs))
     = Inl (Thrown ''empty'')
   \<and> fst (getFile sample_imports
          (always (Rejected (AxiosError (Some (403, Some (JObj [(''err'', JStr ''Forbidden'')]))))))
          ''abc'' None (initial_state ''figd_key'' None writable_fs))
     = Inl (FigmaError 403 (JStr ''Forbidden''))
   \<and> fst (getNode sample_imports (always (Rejected (AxiosError None)))
          ''abc'' ''1:2'' None (initial_state ''figd_key'' None writable_fs))
     = Inl (Error ''Failed to make request to Figma API'')"
  using
    fetch_passthrough [where remote = "always (Resolved ''{}'')" and fileKey = "''abc''"
      and depth = None and s = "initial_state ''figd_key'' None writable_fs"
      and ext = sample_imports and nodeId = "''1:2''", OF refl refl]
    fetch_passthrough [where remote = "always (Resolved [])" and fileKey = "''abc''"
      and depth = None and s = "initial_state ''figd_key'' None writable_fs"
      and ext = sample_imports and nodeId = "''1:2''", OF refl refl]
    fetch_passthrough [where remote = "always (Rejected (AxiosError (Some (403, Some (JObj [(''err'', JStr ''Forbidden'')])))))" and fileKey = "''abc''"
      and depth = None and s = "initial_state ''figd_key'' None writable_fs"
      and ext = sample_imports and nodeId = "''1:2''", OF refl refl]
    fetch_passthrough [where remote = "always (Rejected (AxiosError None))" and fileKey = "''abc''"
      and depth = None and s = "initial_state ''figd_key'' None writable_fs"
      and ext = sample_imports and nodeId = "''1:2''", OF refl refl]
  by (simp add: request_fst always_def sample_imports_def or_unknown_error_def get_err_def)

text \<open>
  C9. When the image request is answered with a body, \<open>fetchImageData\<close> returns a
  base64 string that decodes to exactly the bytes of that body.
\<close>

theorem fetchImageData_base64_roundtrip:
  assumes "remote \<lparr>url = imageUrl, headers = [], responseType = Some ''arraybuffer''\<rparr>
             = Resolved body"
  shows "\<exists>base64. fst (fetchImageData remote imageUrl s) = Inr base64
                 \<and> base64_decode base64 = Some body"
  using assms by (simp add: fetchImageData_fst base64_roundtrip)

theorem fetchImageData_base64_roundtrip_witness:
  "fst (fetchImageData (always (Resolved [77, 97])) ''https://img.example/1.png''
          (initial_state ''figd_key'' None writable_fs))
     = Inr ''TWE=''
   \<and> base64_decode ''TWE='' = Some [77, 97]"
proof -
  have encoded:
    "fst (fetchImageData (always (Resolved [77, 97])) ''https://img.example/1.png''
            (initial_state ''figd_key'' None writable_fs))
       = Inr ''TWE=''"
    by (simp add: fetchImageData_fst always_def b64_char_def b64_alphabet_def)
  show ?thesis
    using
      fetchImageData_base64_roundtrip [of "always (Resolved [77, 97])"
        "''https://img.example/1.png''" "[77, 97]" "initial_state ''figd_key'' None writable_fs"]
      encoded
    by (simp add: always_def)
qed

text \<open>
  C10. \<open>getNode\<close> puts the node id into the \<open>ids\<close> parameter of its request exactly
  as supplied, hyphens included.
\<close>

theorem getNode_sends_node_id_verbatim:
  "map url (requests (snd (getNode ext remote fileKey nodeId depth s))) =
     map url (requests s)
     @ [baseUrl (service s) @ ''/files/'' @ fileKey @ ''/nodes?ids='' @ nodeId @
        (case depth of
           None \<Rightarrow> []
         | Some d \<Rightarrow>
                        if ToBoolean_number d
                        then ''&depth='' @ Number_toString (shortest_digits ext) d else [])]"
  by (simp add: getNode_snd)

theorem getNode_sends_node_id_verbatim_witness:
  "map url
     (requests (snd (getNode sample_imports (always (Resolved ''{}'')) ''abc'' ''123-456'' None
                       (initial_state ''figd_key'' None writable_fs))))
     = [''https://api.figma.com/v1/files/abc/nodes?ids=123-456'']"
  using getNode_sends_node_id_verbatim [of sample_imports "always (Resolved ''{}'')" "''abc''"
      "''123-456''" None "initial_state ''figd_key'' None writable_fs"]
  by (simp add: initial_state_def constructor_def)

end
